theory Spec2Isabelle
  imports Complex_Main "HOL-Library.Multiset" "HOL-Library.Sublist"
begin

section \<open>Risk engine: data model\<close>

text \<open>
  The development embeds \<^verbatim>\<open>src/services/riskEngine.js\<close>. The two string
  enumerations of the module become datatypes.
\<close>

datatype RiskLevel = LOW | MEDIUM | HIGH | CRITICAL

datatype RiskType =
    OVERTRADING | HIGH_LOSS_STREAK | LARGE_POSITION | RAPID_TRADING
  | MARTINGALE_PATTERN | BALANCE_DEPLETION | BOT_ACTIVITY | UNUSUAL_HOURS

subsection \<open>Numbers\<close>

text \<open>
  A JavaScript number is an IEEE 754 binary64 value. A finite nonzero value and the
  positive zero are \<open>Fin x\<close> with \<open>x\<close> the rational the value stands for; the negative
  zero, the two infinities and NaN are constructors of their own. Every arithmetic
  operation computes the exact rational result and rounds it to the nearest binary64
  value, ties to even, with gradual underflow and overflow to infinity.

  The numeric members of the input records (prices, balances, thresholds) are
  rationals, each standing for the binary64 value it equals. Where a member enters
  arithmetic it is read through \<open>double_of\<close>, the Number value for a mathematical
  value: a rational that a binary64 value stands for is read as that value, any other
  as the nearest one, as a decimal literal is. No input member is a negative zero, an
  infinity or NaN; these arise from arithmetic only. An absent (\<^verbatim>\<open>undefined\<close>)
  argument is \<open>None\<close>, which arithmetic converts to \<open>NaN\<close>.
\<close>

datatype jsnum = Fin rat | NZero | PInf | NInf | NaN

text \<open>The number of binary digits of a positive integer.\<close>

function bitlen :: "int \<Rightarrow> int" where
  "bitlen n = (if n \<le> 0 then 0 else 1 + bitlen (n div 2))"
  by pat_completeness auto
termination
  by (relation "measure nat") auto

declare bitlen.simps [simp del]

definition pow2 :: "int \<Rightarrow> rat" where
  "pow2 e = (if 0 \<le> e then 2 ^ nat e else 1 / 2 ^ nat (- e))"

text \<open>
  The binary exponent of a positive rational \<open>m\<close>: the \<open>e\<close> with
  \<open>2\<^sup>e \<le> m < 2\<^sup>e\<^sup>+\<^sup>1\<close>. The difference of the bit lengths of numerator and
  denominator is \<open>e\<close> or \<open>e + 1\<close>.
\<close>

definition exponent :: "rat \<Rightarrow> int" where
  "exponent m =
     (let d = bitlen (fst (quotient_of m)) - bitlen (snd (quotient_of m))
      in if pow2 d \<le> m then d else d - 1)"

definition roundTiesToEven :: "rat \<Rightarrow> int" where
  "roundTiesToEven s =
     (let n = \<lfloor>s\<rfloor>; f = s - of_int n
      in if f < 1 / 2 then n else if 1 / 2 < f then n + 1 else if even n then n else n + 1)"

definition signed_zero :: "bool \<Rightarrow> jsnum" where
  "signed_zero neg = (if neg then NZero else Fin 0)"

definition signed_inf :: "bool \<Rightarrow> jsnum" where
  "signed_inf neg = (if neg then NInf else PInf)"

text \<open>
  The binary64 value nearest to the magnitude \<open>m \<ge> 0\<close>, with the sign \<open>neg\<close>. The
  significand has 53 bits; below the exponent \<open>-1022\<close> the spacing stays
  \<open>2\<^sup>-\<^sup>1\<^sup>0\<^sup>7\<^sup>4\<close>; a result that rounds up to \<open>2\<^sup>1\<^sup>0\<^sup>2\<^sup>4\<close> is infinite.
\<close>

definition round64 :: "bool \<Rightarrow> rat \<Rightarrow> jsnum" where
  "round64 neg m =
     (if m = 0 then signed_zero neg
      else
        let e = exponent m
        in if 1023 < e then signed_inf neg
           else
             let q = pow2 (max e (- 1022) - 52);
                 k = roundTiesToEven (m / q)
             in if e = 1023 \<and> k = 2 ^ 53 then signed_inf neg
                else if k = 0 then signed_zero neg
                else Fin ((if neg then - 1 else 1) * of_int k * q))"

definition double_of :: "rat \<Rightarrow> jsnum" where
  "double_of x = round64 (x < 0) \<bar>x\<bar>"

fun toNumber :: "rat option \<Rightarrow> jsnum" where
  "toNumber None = NaN"
| "toNumber (Some x) = double_of x"

fun negative :: "jsnum \<Rightarrow> bool" where
  "negative (Fin x) = (x < 0)"
| "negative NZero = True"
| "negative NInf = True"
| "negative _ = False"

fun magnitude :: "jsnum \<Rightarrow> rat" where
  "magnitude (Fin x) = \<bar>x\<bar>"
| "magnitude _ = 0"

fun finite_value :: "jsnum \<Rightarrow> rat" where
  "finite_value (Fin x) = x"
| "finite_value _ = 0"

fun is_zero :: "jsnum \<Rightarrow> bool" where
  "is_zero (Fin x) = (x = 0)"
| "is_zero NZero = True"
| "is_zero _ = False"

fun is_inf :: "jsnum \<Rightarrow> bool" where
  "is_inf PInf = True"
| "is_inf NInf = True"
| "is_inf _ = False"

text \<open>
  Subtraction, division and multiplication. An exact zero difference is the positive
  zero, except that the negative zero minus the positive zero is the negative zero.
\<close>

definition jssub :: "jsnum \<Rightarrow> jsnum \<Rightarrow> jsnum" where
  "jssub a b =
     (if a = NaN \<or> b = NaN then NaN
      else if is_inf a
      then (if is_inf b \<and> negative a = negative b then NaN else a)
      else if is_inf b then signed_inf (\<not> negative b)
      else
        let r = finite_value a - finite_value b
        in if r = 0 then (if a = NZero \<and> b \<noteq> NZero then NZero else Fin 0)
           else round64 (r < 0) \<bar>r\<bar>)"

definition jsdiv :: "jsnum \<Rightarrow> jsnum \<Rightarrow> jsnum" where
  "jsdiv a b =
     (if a = NaN \<or> b = NaN then NaN
      else if is_inf a
      then (if is_inf b then NaN else signed_inf (negative a \<noteq> negative b))
      else if is_inf b then signed_zero (negative a \<noteq> negative b)
      else if is_zero b
      then (if is_zero a then NaN else signed_inf (negative a \<noteq> negative b))
      else round64 (negative a \<noteq> negative b) (magnitude a / magnitude b))"

definition jsmul :: "jsnum \<Rightarrow> jsnum \<Rightarrow> jsnum" where
  "jsmul a b =
     (if a = NaN \<or> b = NaN then NaN
      else if is_inf a \<or> is_inf b
      then (if is_zero a \<or> is_zero b then NaN else signed_inf (negative a \<noteq> negative b))
      else round64 (negative a \<noteq> negative b) (magnitude a * magnitude b))"

text \<open>
  The relational operators; every comparison with \<open>NaN\<close> is false and the two zeros
  are equal.
\<close>

fun jslt :: "jsnum \<Rightarrow> jsnum \<Rightarrow> bool" where
  "jslt NaN _ = False"
| "jslt _ NaN = False"
| "jslt PInf _ = False"
| "jslt _ NInf = False"
| "jslt _ PInf = True"
| "jslt NInf _ = True"
| "jslt a b = (finite_value a < finite_value b)"

definition jsgt :: "jsnum \<Rightarrow> jsnum \<Rightarrow> bool" where
  "jsgt a b = jslt b a"

fun jsge :: "jsnum \<Rightarrow> jsnum \<Rightarrow> bool" where
  "jsge NaN _ = False"
| "jsge _ NaN = False"
| "jsge a b = (\<not> jslt a b)"

subsection \<open>Records\<close>

record threshold_set =
  maxDailyTrades :: rat
  maxLossStreak :: rat
  maxPositionPercent :: rat
  minTimeBetweenTrades :: rat
  martingaleMultiplier :: rat
  balanceDropPercent :: rat
  botTradeInterval :: rat

text \<open>
  An open position and a closed trade. Both carry a field \<^verbatim>\<open>buy_price\<close>; the
  position's is written \<open>position.buy_price\<close>, the unqualified name is the trade's.
  \<^verbatim>\<open>purchase_time\<close> is in whole Unix seconds.
\<close>

record position =
  buy_price :: rat
  contract_id :: int

record trade =
  purchase_time :: int
  buy_price :: rat
  sell_price :: rat

text \<open>
  A warning object. \<^verbatim>\<open>type\<close> and \<^verbatim>\<open>value\<close> are written \<open>type_w\<close> and
  \<open>value_w\<close>. The optional members \<^verbatim>\<open>isBotLikely\<close> and \<^verbatim>\<open>contractId\<close> are
  \<open>None\<close> where the object literal does not have them. The \<^verbatim>\<open>message\<close> member, a
  display string formatted from the same quantities, is not modelled.
\<close>

record warning =
  type_w :: RiskType
  level :: RiskLevel
  value_w :: jsnum
  isBotLikely :: "bool option"
  contractId :: "int option"

text \<open>
  The mutable members of a \<^verbatim>\<open>RiskEngine\<close> instance, threaded through every method.
\<close>

record engine =
  thresholds :: threshold_set
  warnings :: "warning list"

text \<open>
  The object returned by \<^verbatim>\<open>analyzeTradeHistory\<close>; \<open>riskLevel\<close> is \<open>None\<close> when the
  returned object has no such member. The unqualified \<open>warnings\<close> is this record's
  field, the engine's is \<open>engine.warnings\<close>.
\<close>

record analysis_result =
  warnings :: "warning list"
  riskScore :: int
  riskLevel :: "RiskLevel option"

subsection \<open>The clock and the time zone\<close>

text \<open>
  \<^verbatim>\<open>new Date()\<close> reads the clock and \<^verbatim>\<open>toDateString\<close>, \<^verbatim>\<open>getHours\<close> use the
  local time zone. Both are made explicit: \<open>now\<close> is the current time value in
  milliseconds since the epoch and \<open>localTZA t\<close> the offset of local time from UTC, in
  milliseconds, at time value \<open>t\<close>. A date string is represented by the number of the
  local calendar day, which determines it and is determined by it. Time values are
  assumed to lie in the range in which a \<^verbatim>\<open>Date\<close> is valid.
\<close>

record env =
  now :: int
  localTZA :: "int \<Rightarrow> int"

definition toDateString :: "env \<Rightarrow> int \<Rightarrow> int" where
  "toDateString ev t = (t + localTZA ev t) div 86400000"

definition getHours :: "env \<Rightarrow> int \<Rightarrow> int" where
  "getHours ev t = ((t + localTZA ev t) div 3600000) mod 24"

section \<open>Risk engine: operations\<close>

subsection \<open>Construction and configuration\<close>

text \<open>
  The defaults of the constructor. The literal \<^verbatim>\<open>1.8\<close> is the binary64 value
  \<open>8106479329266893 / 2\<^sup>5\<^sup>2\<close>; the other defaults are integers.
\<close>

definition defaultThresholds :: threshold_set where
  "defaultThresholds =
     \<lparr> maxDailyTrades = 50, maxLossStreak = 5, maxPositionPercent = 10,
       minTimeBetweenTrades = 10,
       martingaleMultiplier = 8106479329266893 / 4503599627370496,
       balanceDropPercent = 20, botTradeInterval = 2 \<rparr>"

definition riskEngine :: engine where
  "riskEngine = \<lparr> thresholds = defaultThresholds, engine.warnings = [] \<rparr>"

text \<open>
  \<^verbatim>\<open>setThresholds\<close> merges a partial object into the thresholds; the partial object
  is a list of key-value pairs, later pairs overriding earlier ones.
\<close>

datatype threshold_key =
    MaxDailyTrades | MaxLossStreak | MaxPositionPercent | MinTimeBetweenTrades
  | MartingaleMultiplier | BalanceDropPercent | BotTradeInterval

fun assign :: "threshold_set \<Rightarrow> threshold_key \<times> rat \<Rightarrow> threshold_set" where
  "assign th (MaxDailyTrades, v) = th\<lparr>maxDailyTrades := v\<rparr>"
| "assign th (MaxLossStreak, v) = th\<lparr>maxLossStreak := v\<rparr>"
| "assign th (MaxPositionPercent, v) = th\<lparr>maxPositionPercent := v\<rparr>"
| "assign th (MinTimeBetweenTrades, v) = th\<lparr>minTimeBetweenTrades := v\<rparr>"
| "assign th (MartingaleMultiplier, v) = th\<lparr>martingaleMultiplier := v\<rparr>"
| "assign th (BalanceDropPercent, v) = th\<lparr>balanceDropPercent := v\<rparr>"
| "assign th (BotTradeInterval, v) = th\<lparr>botTradeInterval := v\<rparr>"

definition setThresholds :: "(threshold_key \<times> rat) list \<Rightarrow> engine \<Rightarrow> engine" where
  "setThresholds newThresholds e = e\<lparr>thresholds := foldl assign (thresholds e) newThresholds\<rparr>"

text \<open>\<^verbatim>\<open>this.warnings.push(w)\<close>.\<close>

definition push :: "warning \<Rightarrow> engine \<Rightarrow> engine" where
  "push w e = e\<lparr>engine.warnings := engine.warnings e @ [w]\<rparr>"

text \<open>
  \<^verbatim>\<open>[...trades].sort((a, b) => a.purchase_time - b.purchase_time)\<close>: a stable
  ascending sort of a copy, by purchase time.
\<close>

definition sortByTime :: "trade list \<Rightarrow> trade list" where
  "sortByTime trades = sort_key purchase_time trades"

text \<open>
  The loop \<^verbatim>\<open>for (let i = 1; i < n; i++) if (cond(xs[i - 1], xs[i])) cnt++\<close>, which
  three detectors run over the sorted copy, each with its own condition and bound.
\<close>

function forAdjacent :: "('a \<Rightarrow> 'a \<Rightarrow> bool) \<Rightarrow> 'a list \<Rightarrow> nat \<Rightarrow> nat \<Rightarrow> nat \<Rightarrow> nat" where
  "forAdjacent cond xs n i cnt =
     (if i < n
      then forAdjacent cond xs n (i + 1)
             (if cond (xs ! (i - 1)) (xs ! i) then cnt + 1 else cnt)
      else cnt)"
  by pat_completeness auto
termination
  by (relation "measure (\<lambda>(cond, xs, n, i, cnt). n - i)") auto

declare forAdjacent.simps [simp del]

subsection \<open>The seven detectors\<close>

definition checkOvertrading :: "env \<Rightarrow> trade list \<Rightarrow> engine \<Rightarrow> engine" where
  "checkOvertrading ev trades e =
     (let today = toDateString ev (now ev);
          todayTrades = filter (\<lambda>t. toDateString ev (purchase_time t * 1000) = today) trades
      in if maxDailyTrades (thresholds e) < of_nat (length todayTrades)
         then push \<lparr> type_w = OVERTRADING, level = HIGH,
                     value_w = Fin (of_nat (length todayTrades)),
                     isBotLikely = None, contractId = None \<rparr> e
         else e)"

text \<open>
  The \<^verbatim>\<open>for ... of\<close> loop of \<^verbatim>\<open>checkLossStreak\<close> with its two counters; it
  returns the final \<^verbatim>\<open>maxStreak\<close>.
\<close>

fun lossStreakLoop :: "trade list \<Rightarrow> nat \<Rightarrow> nat \<Rightarrow> nat" where
  "lossStreakLoop [] currentStreak maxStreak = maxStreak"
| "lossStreakLoop (t # ts) currentStreak maxStreak =
     (if sell_price t < buy_price t
      then lossStreakLoop ts (currentStreak + 1) (max maxStreak (currentStreak + 1))
      else lossStreakLoop ts 0 maxStreak)"

definition checkLossStreak :: "trade list \<Rightarrow> engine \<Rightarrow> engine" where
  "checkLossStreak trades e =
     (let maxStreak = lossStreakLoop trades 0 0
      in if maxLossStreak (thresholds e) \<le> of_nat maxStreak
         then push \<lparr> type_w = HIGH_LOSS_STREAK,
                     level = (if 8 \<le> maxStreak then CRITICAL else HIGH),
                     value_w = Fin (of_nat maxStreak),
                     isBotLikely = None, contractId = None \<rparr> e
         else e)"

definition checkRapidTrading :: "trade list \<Rightarrow> engine \<Rightarrow> engine" where
  "checkRapidTrading trades e =
     (let sortedTrades = sortByTime trades;
          rapidCount = forAdjacent
            (\<lambda>prev curr. of_int (purchase_time curr - purchase_time prev)
                            < minTimeBetweenTrades (thresholds e))
            sortedTrades (length sortedTrades) 1 0
      in if 5 < rapidCount
         then push \<lparr> type_w = RAPID_TRADING, level = MEDIUM,
                     value_w = Fin (of_nat rapidCount),
                     isBotLikely = None, contractId = None \<rparr> e
         else e)"

definition checkMartingalePattern :: "trade list \<Rightarrow> engine \<Rightarrow> engine" where
  "checkMartingalePattern trades e =
     (let sortedTrades = sortByTime trades;
          martingaleCount = forAdjacent
            (\<lambda>prevTrade currTrade.
                jslt (double_of (sell_price prevTrade)) (double_of (buy_price prevTrade)) \<and>
                jsge (double_of (buy_price currTrade))
                     (jsmul (double_of (buy_price prevTrade))
                            (double_of (martingaleMultiplier (thresholds e)))))
            sortedTrades (length sortedTrades) 1 0
      in if 3 \<le> martingaleCount
         then push \<lparr> type_w = MARTINGALE_PATTERN, level = CRITICAL,
                     value_w = Fin (of_nat martingaleCount),
                     isBotLikely = None, contractId = None \<rparr> e
         else e)"

text \<open>
  The guard \<^verbatim>\<open>!initialBalance || initialBalance === 0\<close> holds for an absent and for
  a zero initial balance, of either sign.
\<close>

definition checkBalanceDepletion :: "rat option \<Rightarrow> rat option \<Rightarrow> engine \<Rightarrow> engine" where
  "checkBalanceDepletion currentBalance initialBalance e =
     (if initialBalance = None \<or> is_zero (toNumber initialBalance) then e
      else
        let dropPercent =
              jsmul (jsdiv (jssub (toNumber initialBalance) (toNumber currentBalance))
                           (toNumber initialBalance))
                    (Fin 100)
        in if jsge dropPercent (double_of (balanceDropPercent (thresholds e)))
           then push \<lparr> type_w = BALANCE_DEPLETION,
                       level = (if jsge dropPercent (Fin 50) then CRITICAL else HIGH),
                       value_w = dropPercent,
                       isBotLikely = None, contractId = None \<rparr> e
           else e)"

definition checkBotActivity :: "trade list \<Rightarrow> engine \<Rightarrow> engine" where
  "checkBotActivity trades e =
     (let sortedTrades = sortByTime trades;
          suspiciousIntervals = forAdjacent
            (\<lambda>prev curr. of_int (purchase_time curr - purchase_time prev)
                            \<le> botTradeInterval (thresholds e))
            sortedTrades (min (length sortedTrades) 20) 1 0
      in if 5 \<le> suspiciousIntervals
         then push \<lparr> type_w = BOT_ACTIVITY, level = MEDIUM,
                     value_w = Fin (of_nat suspiciousIntervals),
                     isBotLikely = Some True, contractId = None \<rparr> e
         else e)"

definition checkUnusualHours :: "env \<Rightarrow> trade list \<Rightarrow> engine \<Rightarrow> engine" where
  "checkUnusualHours ev trades e =
     (let unusualHourTrades =
            filter (\<lambda>t. 0 \<le> getHours ev (purchase_time t * 1000) \<and>
                        getHours ev (purchase_time t * 1000) < 6) trades
      in if 10 \<le> length unusualHourTrades
         then push \<lparr> type_w = UNUSUAL_HOURS, level = LOW,
                     value_w = Fin (of_nat (length unusualHourTrades)),
                     isBotLikely = None, contractId = None \<rparr> e
         else e)"

subsection \<open>Open positions\<close>

text \<open>
  The \<^verbatim>\<open>for ... of\<close> loop of \<^verbatim>\<open>analyzeOpenPositions\<close>, appending to the local
  array \<^verbatim>\<open>positionWarnings\<close>.
\<close>

fun positionsLoop :: "threshold_set \<Rightarrow> rat \<Rightarrow> position list \<Rightarrow> warning list \<Rightarrow> warning list" where
  "positionsLoop th balance [] positionWarnings = positionWarnings"
| "positionsLoop th balance (p # ps) positionWarnings =
     (let positionPercent =
            jsmul (jsdiv (double_of (position.buy_price p)) (double_of balance)) (Fin 100)
      in positionsLoop th balance ps
           (if jsgt positionPercent (double_of (maxPositionPercent th))
            then positionWarnings @
                   [\<lparr> type_w = LARGE_POSITION,
                      level = (if jsgt positionPercent (Fin 25) then CRITICAL else HIGH),
                      value_w = positionPercent,
                      isBotLikely = None, contractId = Some (contract_id p) \<rparr>]
            else positionWarnings))"

text \<open>The method returns the local array; the engine is handed back as it was found.\<close>

definition analyzeOpenPositions :: "position list \<Rightarrow> rat \<Rightarrow> engine \<Rightarrow> warning list \<times> engine" where
  "analyzeOpenPositions positions balance e =
     (positionsLoop (thresholds e) balance positions [], e)"

subsection \<open>Scoring and orchestration\<close>

text \<open>The \<^verbatim>\<open>switch\<close> inside the loop of \<^verbatim>\<open>calculateOverallRiskScore\<close>.\<close>

fun scoreLoop :: "warning list \<Rightarrow> int \<Rightarrow> int" where
  "scoreLoop [] score = score"
| "scoreLoop (w # ws) score =
     scoreLoop ws
       (case level w of
          LOW \<Rightarrow> score + 5
        | MEDIUM \<Rightarrow> score + 15
        | HIGH \<Rightarrow> score + 30
        | CRITICAL \<Rightarrow> score + 50)"

definition calculateOverallRiskScore :: "engine \<Rightarrow> int" where
  "calculateOverallRiskScore e = min (scoreLoop (engine.warnings e) 0) 100"

definition getRiskLevel :: "int \<Rightarrow> RiskLevel" where
  "getRiskLevel score =
     (if 70 \<le> score then CRITICAL
      else if 40 \<le> score then HIGH
      else if 20 \<le> score then MEDIUM
      else LOW)"

text \<open>
  \<^verbatim>\<open>analyzeTradeHistory\<close>. The trade list is \<open>None\<close> when the argument is absent.
  The result is paired with the engine as the call leaves it.
\<close>

definition analyzeTradeHistory ::
  "env \<Rightarrow> trade list option \<Rightarrow> rat option \<Rightarrow> rat option \<Rightarrow> engine \<Rightarrow> analysis_result \<times> engine" where
  "analyzeTradeHistory ev trades currentBalance initialBalance e =
     (let e0 = e\<lparr>engine.warnings := []\<rparr>
      in case trades of
           None \<Rightarrow> (\<lparr> warnings = [], riskScore = 0, riskLevel = None \<rparr>, e0)
         | Some ts \<Rightarrow>
             if length ts = 0
             then (\<lparr> warnings = [], riskScore = 0, riskLevel = None \<rparr>, e0)
             else
               let e1 = checkOvertrading ev ts e0;
                   e2 = checkLossStreak ts e1;
                   e3 = checkRapidTrading ts e2;
                   e4 = checkMartingalePattern ts e3;
                   e5 = checkBalanceDepletion currentBalance initialBalance e4;
                   e6 = checkBotActivity ts e5;
                   e7 = checkUnusualHours ev ts e6;
                   score = calculateOverallRiskScore e7
               in (\<lparr> warnings = engine.warnings e7, riskScore = score,
                      riskLevel = Some (getRiskLevel score) \<rparr>, e7))"

section \<open>Notions of the specification\<close>

text \<open>
  The definitions of this section are not translations of code: they say, in the
  words of the specification, what the code is compared with.
\<close>

text \<open>Severity-to-points mapping: LOW = 5, MEDIUM = 15, HIGH = 30, CRITICAL = 50.\<close>

fun severity_points :: "RiskLevel \<Rightarrow> int" where
  "severity_points LOW = 5"
| "severity_points MEDIUM = 15"
| "severity_points HIGH = 30"
| "severity_points CRITICAL = 50"

text \<open>The ordinal severity LOW < MEDIUM < HIGH < CRITICAL.\<close>

fun level_rank :: "RiskLevel \<Rightarrow> nat" where
  "level_rank LOW = 0"
| "level_rank MEDIUM = 1"
| "level_rank HIGH = 2"
| "level_rank CRITICAL = 3"

text \<open>A trade is a loss iff its sell price is below its buy price.\<close>

definition is_loss :: "trade \<Rightarrow> bool" where
  "is_loss t \<longleftrightarrow> sell_price t < buy_price t"

text \<open>The adjacent pairs of a list, each earlier element with its successor.\<close>

definition adjacent_pairs :: "'a list \<Rightarrow> ('a \<times> 'a) list" where
  "adjacent_pairs xs = zip xs (tl xs)"


text \<open>A gap of at most \<open>interval\<close> seconds between two trades.\<close>

definition close_gap :: "rat \<Rightarrow> trade \<Rightarrow> trade \<Rightarrow> bool" where
  "close_gap interval earlier later \<longleftrightarrow>
     of_int (purchase_time later - purchase_time earlier) \<le> interval"

text \<open>
  The percentage of the balance that a position's stake takes: the binary64 quotient
  of stake and balance, times 100.
\<close>

definition positionPercent :: "rat \<Rightarrow> position \<Rightarrow> jsnum" where
  "positionPercent balance p =
     jsmul (jsdiv (double_of (position.buy_price p)) (double_of balance)) (Fin 100)"

section \<open>Example inputs\<close>

text \<open>An environment in UTC whose clock reads \<open>t\<close> milliseconds.\<close>

definition utc :: "int \<Rightarrow> env" where
  "utc t = \<lparr> now = t, localTZA = (\<lambda>_. 0) \<rparr>"

text \<open>A losing and a winning trade of stake 10, bought at second \<open>t\<close>.\<close>

definition losing :: "int \<Rightarrow> trade" where
  "losing t = \<lparr> purchase_time = t, buy_price = 10, sell_price = 8 \<rparr>"

definition winning :: "int \<Rightarrow> trade" where
  "winning t = \<lparr> purchase_time = t, buy_price = 10, sell_price = 12 \<rparr>"

text \<open>Six trades around noon of the first day of the epoch, ten minutes apart.\<close>

definition sixTrades :: "trade list" where
  "sixTrades = map winning [43200, 43800, 44400, 45000, 45600, 46200]"


text \<open>
  Two losses, a tie, five losses and a win, in this order, all at the same second.
\<close>

definition streakTrades :: "trade list" where
  "streakTrades =
     replicate 2 (losing 0) @ [\<lparr> purchase_time = 0, buy_price = 10, sell_price = 10 \<rparr>] @
     replicate 5 (losing 0) @ [winning 0]"




text \<open>\<open>n\<close> trades 100 seconds apart, and six trades one second apart.\<close>

definition slowTrades :: "int \<Rightarrow> nat \<Rightarrow> trade list" where
  "slowTrades start n = map (\<lambda>k. winning (start + 100 * int k)) [0..<n]"

definition quickTrades :: "int \<Rightarrow> trade list" where
  "quickTrades start = map (\<lambda>k. winning (start + int k)) [0..<6]"

text \<open>
  Twenty-five trades whose six quick ones are listed last and come first in time, and
  twenty-six trades whose six quick ones are listed first and come last in time.
\<close>

definition earlyQuickTrades :: "trade list" where
  "earlyQuickTrades = slowTrades 1000 19 @ quickTrades 0"

definition lateQuickTrades :: "trade list" where
  "lateQuickTrades = quickTrades 5000 @ slowTrades 0 20"

section \<open>Frame lemmas\<close>

lemma push_append: "push w e = e\<lparr>engine.warnings := engine.warnings e @ [w]\<rparr>"
  by (simp add: push_def)

lemma thresholds_push [simp]: "thresholds (push w e) = thresholds e"
  by (simp add: push_def)

lemma thresholds_detectors [simp]:
  "thresholds (checkOvertrading ev ts e) = thresholds e"
  "thresholds (checkLossStreak ts e) = thresholds e"
  "thresholds (checkRapidTrading ts e) = thresholds e"
  "thresholds (checkMartingalePattern ts e) = thresholds e"
  "thresholds (checkBalanceDepletion cur ini e) = thresholds e"
  "thresholds (checkBotActivity ts e) = thresholds e"
  "thresholds (checkUnusualHours ev ts e) = thresholds e"
  by (simp_all add: checkOvertrading_def checkLossStreak_def checkRapidTrading_def
        checkMartingalePattern_def checkBalanceDepletion_def checkBotActivity_def
        checkUnusualHours_def Let_def)

lemma thresholds_analyzeTradeHistory:
  "thresholds (snd (analyzeTradeHistory ev ts cur ini e)) = thresholds e"
  by (simp add: analyzeTradeHistory_def Let_def split: option.split)

lemma analyzeTradeHistory_resets:
  "analyzeTradeHistory ev ts cur ini (e\<lparr>engine.warnings := ws\<rparr>) =
   analyzeTradeHistory ev ts cur ini e"
  by (simp add: analyzeTradeHistory_def)

lemma analyzeTradeHistory_thresholds_only:
  assumes "thresholds e' = thresholds e"
  shows "analyzeTradeHistory ev ts cur ini e' = analyzeTradeHistory ev ts cur ini e"
proof -
  have "e' = e\<lparr>engine.warnings := engine.warnings e'\<rparr>"
    using assms by simp
  then show ?thesis
    using analyzeTradeHistory_resets by metis
qed

lemma analyzeTradeHistory_nonempty:
  "ts \<noteq> [] \<Longrightarrow>
   analyzeTradeHistory ev (Some ts) cur ini e =
     (let e7 = checkUnusualHours ev ts (checkBotActivity ts (checkBalanceDepletion cur ini
                (checkMartingalePattern ts (checkRapidTrading ts (checkLossStreak ts
                  (checkOvertrading ev ts (e\<lparr>engine.warnings := []\<rparr>)))))))
      in (\<lparr> warnings = engine.warnings e7, riskScore = calculateOverallRiskScore e7,
             riskLevel = Some (getRiskLevel (calculateOverallRiskScore e7)) \<rparr>, e7))"
  by (simp add: analyzeTradeHistory_def Let_def)

lemma riskEngine_warnings: "engine.warnings riskEngine = []"
  by (simp add: riskEngine_def)

lemma analyzeOpenPositions_frame: "snd (analyzeOpenPositions ps balance e) = e"
  by (simp add: analyzeOpenPositions_def)

section \<open>Scoring\<close>

lemma scoreLoop_sum:
  "scoreLoop ws score = score + sum_list (map (\<lambda>w. severity_points (level w)) ws)"
  by (induction ws arbitrary: score) (auto split: RiskLevel.split)

lemma scoreLoop_nonneg: "0 \<le> score \<Longrightarrow> 0 \<le> scoreLoop ws score"
  by (induction ws arbitrary: score) (auto split: RiskLevel.split)

lemma five_losses_result:
  "fst (analyzeTradeHistory (utc 0) (Some (replicate 5 (losing 0))) (Some 750) (Some 1000) riskEngine) =
     \<lparr> warnings =
         [\<lparr> type_w = HIGH_LOSS_STREAK, level = HIGH, value_w = Fin 5,
             isBotLikely = None, contractId = None \<rparr>,
          \<lparr> type_w = BALANCE_DEPLETION, level = HIGH, value_w = Fin 25,
             isBotLikely = None, contractId = None \<rparr>],
       riskScore = 60, riskLevel = Some HIGH \<rparr>"
  by code_simp

lemma eight_losses_result:
  "fst (analyzeTradeHistory (utc 0) (Some (replicate 8 (losing 0))) (Some 400) (Some 1000) riskEngine) =
     \<lparr> warnings =
         [\<lparr> type_w = HIGH_LOSS_STREAK, level = CRITICAL, value_w = Fin 8,
             isBotLikely = None, contractId = None \<rparr>,
          \<lparr> type_w = RAPID_TRADING, level = MEDIUM, value_w = Fin 7,
             isBotLikely = None, contractId = None \<rparr>,
          \<lparr> type_w = BALANCE_DEPLETION, level = CRITICAL, value_w = Fin 60,
             isBotLikely = None, contractId = None \<rparr>,
          \<lparr> type_w = BOT_ACTIVITY, level = MEDIUM, value_w = Fin 7,
             isBotLikely = Some True, contractId = None \<rparr>],
       riskScore = 100, riskLevel = Some CRITICAL \<rparr>"
  by code_simp

text \<open>
  Claim C1. On a non-empty trade list, the returned \<open>riskScore\<close> is the sum of the
  points of the returned warnings (LOW 5, MEDIUM 15, HIGH 30, CRITICAL 50), cut off
  at 100, and the returned \<open>riskLevel\<close> follows from that score by the cutoffs 70, 40
  and 20.
\<close>

theorem analyzeTradeHistory_score:
  "ts \<noteq> [] \<Longrightarrow>
   (let r = fst (analyzeTradeHistory ev (Some ts) cur ini e);
        total = sum_list (map (\<lambda>w. severity_points (level w)) (analysis_result.warnings r))
    in riskScore r = min total 100 \<and>
       riskLevel r = Some (if 70 \<le> riskScore r then CRITICAL
                           else if 40 \<le> riskScore r then HIGH
                           else if 20 \<le> riskScore r then MEDIUM
                           else LOW))"
  by (simp add: analyzeTradeHistory_nonempty Let_def calculateOverallRiskScore_def
        scoreLoop_sum getRiskLevel_def)

text \<open>
  Eight simultaneous losing trades with a balance fallen from 1000 to 400: two
  CRITICAL and two MEDIUM warnings, 130 points, a score of 100 and level CRITICAL.
\<close>

theorem analyzeTradeHistory_score_witness:
  "replicate 8 (losing 0) \<noteq> [] \<and>
   (let r = fst (analyzeTradeHistory (utc 0) (Some (replicate 8 (losing 0)))
                   (Some 400) (Some 1000) riskEngine);
        total = sum_list (map (\<lambda>w. severity_points (level w)) (analysis_result.warnings r))
    in total = 130 \<and> riskScore r = min total 100 \<and> riskScore r = 100 \<and>
       riskLevel r = Some (if 70 \<le> riskScore r then CRITICAL
                           else if 40 \<le> riskScore r then HIGH
                           else if 20 \<le> riskScore r then MEDIUM
                           else LOW))"
  using analyzeTradeHistory_score
          [of "replicate 8 (losing 0)" "utc 0" "Some 400" "Some 1000" riskEngine]
  by (simp add: eight_losses_result Let_def)

text \<open>
  Claim C7. On a non-empty trade list, whatever the balances and the thresholds, the
  returned \<open>riskScore\<close> lies between 0 and 100, and the returned \<open>riskLevel\<close> is
  \<open>getRiskLevel\<close> of that score: a function of the score alone, with steps at 20, 40
  and 70, that never decreases when the score grows.
\<close>

theorem analyzeTradeHistory_score_range:
  "ts \<noteq> [] \<Longrightarrow>
   (let r = fst (analyzeTradeHistory ev (Some ts) cur ini e)
    in 0 \<le> riskScore r \<and> riskScore r \<le> 100 \<and>
       riskLevel r = Some (getRiskLevel (riskScore r))) \<and>
   (\<forall>s. getRiskLevel s =
      (if s < 20 then LOW else if s < 40 then MEDIUM else if s < 70 then HIGH else CRITICAL)) \<and>
   (\<forall>s1 s2. s1 \<le> s2 \<longrightarrow> level_rank (getRiskLevel s1) \<le> level_rank (getRiskLevel s2))"
  by (simp add: analyzeTradeHistory_nonempty Let_def calculateOverallRiskScore_def
        scoreLoop_nonneg getRiskLevel_def)

text \<open>
  Five losing trades with a balance fallen from 1000 to 750 score 60; and the level
  of score 30 is not above the level of score 75.
\<close>

theorem analyzeTradeHistory_score_range_witness:
  "replicate 5 (losing 0) \<noteq> [] \<and>
   (let r = fst (analyzeTradeHistory (utc 0) (Some (replicate 5 (losing 0)))
                   (Some 750) (Some 1000) riskEngine)
    in riskScore r = 60 \<and> 0 \<le> riskScore r \<and> riskScore r \<le> 100 \<and>
       riskLevel r = Some (getRiskLevel (riskScore r))) \<and>
   (30::int) \<le> 75 \<and> level_rank (getRiskLevel 30) \<le> level_rank (getRiskLevel 75)"
  using analyzeTradeHistory_score_range
          [of "replicate 5 (losing 0)" "utc 0" "Some 750" "Some 1000" riskEngine]
  by (simp add: five_losses_result Let_def)

section \<open>The short circuit\<close>

text \<open>
  Claim C2. When the trade list is absent or empty, \<open>analyzeTradeHistory\<close> returns
  the object with an empty warning list and score 0 and without a risk level; the
  engine is left with an empty warning list and its thresholds, so no detector has
  pushed anything.
\<close>

theorem analyzeTradeHistory_empty:
  "analyzeTradeHistory ev None cur ini e =
     (\<lparr> warnings = [], riskScore = 0, riskLevel = None \<rparr>, e\<lparr>engine.warnings := []\<rparr>) \<and>
   analyzeTradeHistory ev (Some []) cur ini e =
     (\<lparr> warnings = [], riskScore = 0, riskLevel = None \<rparr>, e\<lparr>engine.warnings := []\<rparr>)"
  by (simp add: analyzeTradeHistory_def)

section \<open>Balance depletion\<close>

text \<open>
  A fall from 1000 to 750 is 25 percent. A fall from 100 to 71 is \<open>29 - 2\<^sup>-\<^sup>4\<^sup>8\<close>
  percent in binary64, below a threshold of 29.
\<close>

lemma quarter_drop_warning:
  "engine.warnings (checkBalanceDepletion (Some 750) (Some 1000) riskEngine) =
     [\<lparr> type_w = BALANCE_DEPLETION, level = HIGH, value_w = Fin 25,
         isBotLikely = None, contractId = None \<rparr>]"
  by code_simp

lemma rounded_drop_below_threshold:
  "checkBalanceDepletion (Some 71) (Some 100)
       (setThresholds [(BalanceDropPercent, 29)] riskEngine) =
     setThresholds [(BalanceDropPercent, 29)] riskEngine"
  by code_simp

section \<open>Open positions\<close>








text \<open>
  Claim C3. The balance-depletion rule is skipped when the initial balance is absent
  or zero. The exposure check has no such guard: with balance 0 and a stake of 150 the
  default engine returns a CRITICAL warning whose value is infinite.
\<close>

theorem analyzeOpenPositions_zero_balance:
  "checkBalanceDepletion cur None e = e \<and>
   checkBalanceDepletion cur (Some 0) e = e \<and>
   fst (analyzeOpenPositions [\<lparr> position.buy_price = 150, contract_id = 1 \<rparr>] 0 riskEngine) =
     [\<lparr> type_w = LARGE_POSITION, level = CRITICAL, value_w = PInf,
         isBotLikely = None, contractId = Some 1 \<rparr>]"
proof (intro conjI)
  show "checkBalanceDepletion cur None e = e"
    by (simp add: checkBalanceDepletion_def)
  show "checkBalanceDepletion cur (Some 0) e = e"
    by (simp add: checkBalanceDepletion_def double_of_def round64_def signed_zero_def)
  show "fst (analyzeOpenPositions [\<lparr> position.buy_price = 150, contract_id = 1 \<rparr>] 0 riskEngine) =
     [\<lparr> type_w = LARGE_POSITION, level = CRITICAL, value_w = PInf,
         isBotLikely = None, contractId = Some 1 \<rparr>]"
    by code_simp
qed

text \<open>
  Claim C10. \<open>analyzeOpenPositions\<close> hands the engine back as it found it, thresholds
  and warning list alike, and after any sequence of such calls \<open>analyzeTradeHistory\<close>
  returns what it would have returned without them.
\<close>

theorem analyzeOpenPositions_no_effect:
  "snd (analyzeOpenPositions ps balance e) = e \<and>
   thresholds (snd (analyzeOpenPositions ps balance e)) = thresholds e \<and>
   engine.warnings (snd (analyzeOpenPositions ps balance e)) = engine.warnings e \<and>
   analyzeTradeHistory ev ts cur ini
       (fold (\<lambda>(ps', balance') e'. snd (analyzeOpenPositions ps' balance' e')) queries e) =
     analyzeTradeHistory ev ts cur ini e"
proof -
  have "fold (\<lambda>(ps', balance') e'. snd (analyzeOpenPositions ps' balance' e')) queries e = e"
    by (induction queries) (auto simp: analyzeOpenPositions_frame)
  then show ?thesis
    by (simp add: analyzeOpenPositions_frame)
qed

section \<open>Repeated analysis\<close>

lemma toDateString_tza:
  "localTZA ev2 = localTZA ev1 \<Longrightarrow> toDateString ev2 t = toDateString ev1 t"
  by (simp add: toDateString_def)

lemma checkOvertrading_same_day:
  "localTZA ev2 = localTZA ev1 \<Longrightarrow> toDateString ev2 (now ev2) = toDateString ev1 (now ev1) \<Longrightarrow>
   checkOvertrading ev2 ts e = checkOvertrading ev1 ts e"
  by (simp add: checkOvertrading_def toDateString_tza [of ev2 ev1])

lemma checkUnusualHours_tza:
  "localTZA ev2 = localTZA ev1 \<Longrightarrow> checkUnusualHours ev2 ts e = checkUnusualHours ev1 ts e"
  by (simp add: checkUnusualHours_def getHours_def)

lemma analyzeTradeHistory_same_day:
  assumes tz: "localTZA ev2 = localTZA ev1"
    and day: "toDateString ev2 (now ev2) = toDateString ev1 (now ev1)"
  shows "analyzeTradeHistory ev2 ts cur ini e = analyzeTradeHistory ev1 ts cur ini e"
proof -
  have a: "checkOvertrading ev2 = checkOvertrading ev1"
    by (intro ext) (rule checkOvertrading_same_day [OF tz day])
  have b: "checkUnusualHours ev2 = checkUnusualHours ev1"
    by (intro ext) (rule checkUnusualHours_tza [OF tz])
  show ?thesis
    unfolding analyzeTradeHistory_def a b by (rule refl)
qed

lemma six_first:
  "fst (analyzeTradeHistory (utc 50000000) (Some sixTrades) (Some 1000) (Some 1000)
          (setThresholds [(MaxDailyTrades, 5)] riskEngine)) =
     \<lparr> warnings = [\<lparr> type_w = OVERTRADING, level = HIGH, value_w = Fin 6,
                      isBotLikely = None, contractId = None \<rparr>],
       riskScore = 30, riskLevel = Some MEDIUM \<rparr>"
  by code_simp

lemma six_next_day:
  "fst (analyzeTradeHistory (utc 136400000) (Some sixTrades) (Some 1000) (Some 1000)
          (snd (analyzeTradeHistory (utc 50000000) (Some sixTrades) (Some 1000) (Some 1000)
                  (setThresholds [(MaxDailyTrades, 5)] riskEngine)))) =
     \<lparr> warnings = [], riskScore = 0, riskLevel = Some LOW \<rparr>"
  by code_simp

text \<open>
  Claim C8, as stated, fails: the overtrading detector reads the clock. With
  \<open>maxDailyTrades\<close> set to 5 and six trades on the first day of the epoch, a call on
  that day returns an OVERTRADING warning and score 30; the same call repeated a day
  later, on the engine as the first call left it, returns no warning and score 0.
\<close>

theorem analyzeTradeHistory_repeat_counterexample:
  "fst (analyzeTradeHistory (utc 136400000) (Some sixTrades) (Some 1000) (Some 1000)
          (snd (analyzeTradeHistory (utc 50000000) (Some sixTrades) (Some 1000) (Some 1000)
                  (setThresholds [(MaxDailyTrades, 5)] riskEngine)))) \<noteq>
   fst (analyzeTradeHistory (utc 50000000) (Some sixTrades) (Some 1000) (Some 1000)
          (setThresholds [(MaxDailyTrades, 5)] riskEngine))"
  by (simp add: six_first six_next_day)

text \<open>
  Claim C8, amended. Two calls in succession with the same trades and balances, the
  second on the engine as the first left it, in the same time zone and on the same
  local calendar day, return the same result and leave the same engine: nothing of the
  first call's warning list reaches the second.
\<close>

theorem analyzeTradeHistory_repeat_same_day:
  assumes tz: "localTZA ev2 = localTZA ev1"
    and day: "toDateString ev2 (now ev2) = toDateString ev1 (now ev1)"
  shows "analyzeTradeHistory ev2 ts cur ini (snd (analyzeTradeHistory ev1 ts cur ini e)) =
         analyzeTradeHistory ev1 ts cur ini e"
proof -
  have "analyzeTradeHistory ev2 ts cur ini (snd (analyzeTradeHistory ev1 ts cur ini e)) =
        analyzeTradeHistory ev2 ts cur ini e"
    by (rule analyzeTradeHistory_thresholds_only) (rule thresholds_analyzeTradeHistory)
  also have "\<dots> = analyzeTradeHistory ev1 ts cur ini e"
    by (rule analyzeTradeHistory_same_day [OF tz day])
  finally show ?thesis .
qed

text \<open>The second call one second after the first, on the same day.\<close>

theorem analyzeTradeHistory_repeat_same_day_witness:
  "localTZA (utc 50001000) = localTZA (utc 50000000) \<and>
   toDateString (utc 50001000) (now (utc 50001000)) =
     toDateString (utc 50000000) (now (utc 50000000)) \<and>
   analyzeTradeHistory (utc 50001000) (Some sixTrades) (Some 1000) (Some 1000)
       (snd (analyzeTradeHistory (utc 50000000) (Some sixTrades) (Some 1000) (Some 1000)
                  (setThresholds [(MaxDailyTrades, 5)] riskEngine))) =
     analyzeTradeHistory (utc 50000000) (Some sixTrades) (Some 1000) (Some 1000)
                  (setThresholds [(MaxDailyTrades, 5)] riskEngine) \<and>
   fst (analyzeTradeHistory (utc 50000000) (Some sixTrades) (Some 1000) (Some 1000)
          (setThresholds [(MaxDailyTrades, 5)] riskEngine)) =
     \<lparr> warnings = [\<lparr> type_w = OVERTRADING, level = HIGH, value_w = Fin 6,
                      isBotLikely = None, contractId = None \<rparr>],
       riskScore = 30, riskLevel = Some MEDIUM \<rparr>"
proof -
  have tz: "localTZA (utc 50001000) = localTZA (utc 50000000)"
    by (simp add: utc_def)
  have day: "toDateString (utc 50001000) (now (utc 50001000)) =
             toDateString (utc 50000000) (now (utc 50000000))"
    by (simp add: utc_def toDateString_def)
  show ?thesis
    using tz day analyzeTradeHistory_repeat_same_day [OF tz day] six_first by blast
qed

section \<open>Loss streak\<close>

text \<open>
  Invariants of the loop: the running counter never exceeds the maximum; the result
  bounds every run of losses, and some run attains it.
\<close>

lemma lossStreakLoop_ge: "maxStreak \<le> lossStreakLoop ts currentStreak maxStreak"
proof (induction ts arbitrary: currentStreak maxStreak)
  case Nil
  show ?case by simp
next
  case (Cons t ts)
  show ?case
  proof (cases "sell_price t < buy_price t")
    case True
    have "max maxStreak (currentStreak + 1)
            \<le> lossStreakLoop ts (currentStreak + 1) (max maxStreak (currentStreak + 1))"
      by (rule Cons.IH)
    with True show ?thesis by simp
  next
    case False
    with Cons.IH [of maxStreak 0] show ?thesis by simp
  qed
qed

lemma lossStreakLoop_prefix:
  "currentStreak \<le> maxStreak \<Longrightarrow> prefix ys ts \<Longrightarrow> list_all is_loss ys \<Longrightarrow>
   currentStreak + length ys \<le> lossStreakLoop ts currentStreak maxStreak"
proof (induction ts arbitrary: currentStreak maxStreak ys)
  case Nil
  then show ?case by simp
next
  case (Cons t ts)
  show ?case
  proof (cases ys)
    case Nil
    have "maxStreak \<le> lossStreakLoop (t # ts) currentStreak maxStreak"
      by (rule lossStreakLoop_ge)
    with Nil Cons.prems(1) show ?thesis by simp
  next
    case (Cons y zs)
    with Cons.prems have y: "y = t" and zs: "prefix zs ts" and l: "is_loss t" "list_all is_loss zs"
      by simp_all
    have "currentStreak + 1 + length zs
            \<le> lossStreakLoop ts (currentStreak + 1) (max maxStreak (currentStreak + 1))"
      by (rule Cons.IH [OF _ zs l(2)]) simp
    with l(1) Cons show ?thesis by (simp add: is_loss_def)
  qed
qed

lemma lossStreakLoop_sublist:
  "currentStreak \<le> maxStreak \<Longrightarrow> sublist ys ts \<Longrightarrow> list_all is_loss ys \<Longrightarrow>
   length ys \<le> lossStreakLoop ts currentStreak maxStreak"
proof (induction ts arbitrary: currentStreak maxStreak)
  case Nil
  then show ?case by simp
next
  case (Cons t ts)
  from Cons.prems(2) consider "prefix ys (t # ts)" | "sublist ys ts"
    by (auto simp: sublist_Cons_right)
  then show ?case
  proof cases
    case 1
    from lossStreakLoop_prefix [OF Cons.prems(1) 1 Cons.prems(3)] show ?thesis by simp
  next
    case 2
    show ?thesis
    proof (cases "sell_price t < buy_price t")
      case True
      have "length ys \<le> lossStreakLoop ts (currentStreak + 1) (max maxStreak (currentStreak + 1))"
        by (rule Cons.IH [OF _ 2 Cons.prems(3)]) simp
      with True show ?thesis by simp
    next
      case False
      have "length ys \<le> lossStreakLoop ts 0 maxStreak"
        by (rule Cons.IH [OF _ 2 Cons.prems(3)]) simp
      with False show ?thesis by simp
    qed
  qed
qed

lemma lossStreakLoop_attained:
  "lossStreakLoop ts currentStreak maxStreak = maxStreak \<or>
   (\<exists>ys. prefix ys ts \<and> list_all is_loss ys \<and>
         lossStreakLoop ts currentStreak maxStreak = currentStreak + length ys) \<or>
   (\<exists>ys. sublist ys ts \<and> list_all is_loss ys \<and>
         lossStreakLoop ts currentStreak maxStreak = length ys)"
proof (induction ts arbitrary: currentStreak maxStreak)
  case Nil
  show ?case by simp
next
  case (Cons t ts)
  show ?case
  proof (cases "sell_price t < buy_price t")
    case True
    let ?r = "lossStreakLoop ts (currentStreak + 1) (max maxStreak (currentStreak + 1))"
    have r: "lossStreakLoop (t # ts) currentStreak maxStreak = ?r"
      using True by simp
    from Cons.IH [of "currentStreak + 1" "max maxStreak (currentStreak + 1)"]
    consider "?r = max maxStreak (currentStreak + 1)"
      | ys where "prefix ys ts" "list_all is_loss ys" "?r = currentStreak + 1 + length ys"
      | ys where "sublist ys ts" "list_all is_loss ys" "?r = length ys"
      by blast
    then show ?thesis
    proof cases
      case 1
      show ?thesis
      proof (cases "currentStreak + 1 \<le> maxStreak")
        case True
        with 1 r show ?thesis by (simp add: max_def)
      next
        case False
        with 1 have "?r = currentStreak + length [t]" by (simp add: max_def)
        moreover have "prefix [t] (t # ts)" "list_all is_loss [t]"
          using True by (simp_all add: is_loss_def)
        ultimately show ?thesis unfolding r by blast
      qed
    next
      case 2
      then have "prefix (t # ys) (t # ts)" "list_all is_loss (t # ys)"
        "?r = currentStreak + length (t # ys)"
        using True by (simp_all add: is_loss_def)
      then show ?thesis unfolding r by blast
    next
      case 3
      then have "sublist ys (t # ts)" by (simp add: sublist_Cons_right)
      with 3 show ?thesis unfolding r by blast
    qed
  next
    case False
    let ?r = "lossStreakLoop ts 0 maxStreak"
    have r: "lossStreakLoop (t # ts) currentStreak maxStreak = ?r"
      using False by simp
    from Cons.IH [of 0 maxStreak]
    consider "?r = maxStreak"
      | ys where "prefix ys ts" "list_all is_loss ys" "?r = 0 + length ys"
      | ys where "sublist ys ts" "list_all is_loss ys" "?r = length ys"
      by blast
    then show ?thesis
    proof cases
      case 1
      with r show ?thesis by simp
    next
      case 2
      then have "sublist ys (t # ts)" by (simp add: sublist_Cons_right)
      with 2 show ?thesis unfolding r by auto
    next
      case 3
      then have "sublist ys (t # ts)" by (simp add: sublist_Cons_right)
      with 3 show ?thesis unfolding r by blast
    qed
  qed
qed

lemma lossStreakLoop_longest_run:
  "(\<forall>ys. sublist ys ts \<and> list_all is_loss ys \<longrightarrow> length ys \<le> lossStreakLoop ts 0 0) \<and>
   (\<exists>ys. sublist ys ts \<and> list_all is_loss ys \<and> length ys = lossStreakLoop ts 0 0)"
proof
  show "\<forall>ys. sublist ys ts \<and> list_all is_loss ys \<longrightarrow> length ys \<le> lossStreakLoop ts 0 0"
    by (simp add: lossStreakLoop_sublist)
  from lossStreakLoop_attained [of ts 0 0]
  show "\<exists>ys. sublist ys ts \<and> list_all is_loss ys \<and> length ys = lossStreakLoop ts 0 0"
  proof (elim disjE exE conjE)
    assume "lossStreakLoop ts 0 0 = 0"
    then have "sublist [] ts \<and> list_all is_loss [] \<and>
               length ([] :: trade list) = lossStreakLoop ts 0 0"
      by simp
    then show ?thesis by (rule exI)
  next
    fix ys
    assume "prefix ys ts" "list_all is_loss ys" "lossStreakLoop ts 0 0 = 0 + length ys"
    then have "sublist ys ts \<and> list_all is_loss ys \<and> length ys = lossStreakLoop ts 0 0"
      by (simp add: prefix_imp_sublist)
    then show ?thesis by (rule exI)
  next
    fix ys
    assume "sublist ys ts" "list_all is_loss ys" "lossStreakLoop ts 0 0 = length ys"
    then have "sublist ys ts \<and> list_all is_loss ys \<and> length ys = lossStreakLoop ts 0 0"
      by simp
    then show ?thesis by (rule exI)
  qed
qed

lemma lossStreakLoop_all_losses:
  "list_all is_loss ts \<Longrightarrow> currentStreak \<le> maxStreak \<Longrightarrow>
   lossStreakLoop ts currentStreak maxStreak = max maxStreak (currentStreak + length ts)"
  by (induction ts arbitrary: currentStreak maxStreak) (auto simp: is_loss_def)

text \<open>
  Claim C4. The loss-streak detector reads the trades in the order given. Its maximum
  streak is the length of the longest run of consecutive losses (sell price below buy
  price; a tie is not a loss) in that order: no run is longer and one run is as long.
  It appends exactly one warning when the maximum reaches \<open>maxLossStreak\<close>, carrying
  the maximum as value, with level CRITICAL from 8 on and HIGH below, and nothing
  otherwise. Five losses under a threshold of 5 give one HIGH warning of value 5,
  eight losses one CRITICAL warning.
\<close>

theorem checkLossStreak_spec:
  "(let m = lossStreakLoop ts 0 0
    in (\<forall>ys. sublist ys ts \<and> list_all is_loss ys \<longrightarrow> length ys \<le> m) \<and>
       (\<exists>ys. sublist ys ts \<and> list_all is_loss ys \<and> length ys = m) \<and>
       checkLossStreak ts e =
         e\<lparr>engine.warnings := engine.warnings e @
             (if maxLossStreak (thresholds e) \<le> of_nat m
              then [\<lparr> type_w = HIGH_LOSS_STREAK,
                      level = (if 8 \<le> m then CRITICAL else HIGH),
                      value_w = Fin (of_nat m),
                      isBotLikely = None, contractId = None \<rparr>]
              else [])\<rparr>) \<and>
   (list_all is_loss ts \<and> length ts = 5 \<and> maxLossStreak (thresholds e) = 5 \<longrightarrow>
      engine.warnings (checkLossStreak ts e) =
        engine.warnings e @
          [\<lparr> type_w = HIGH_LOSS_STREAK, level = HIGH, value_w = Fin 5,
              isBotLikely = None, contractId = None \<rparr>]) \<and>
   (list_all is_loss ts \<and> length ts = 8 \<and> maxLossStreak (thresholds e) \<le> 8 \<longrightarrow>
      engine.warnings (checkLossStreak ts e) =
        engine.warnings e @
          [\<lparr> type_w = HIGH_LOSS_STREAK, level = CRITICAL, value_w = Fin 8,
              isBotLikely = None, contractId = None \<rparr>])"
proof (intro conjI)
  show "let m = lossStreakLoop ts 0 0
    in (\<forall>ys. sublist ys ts \<and> list_all is_loss ys \<longrightarrow> length ys \<le> m) \<and>
       (\<exists>ys. sublist ys ts \<and> list_all is_loss ys \<and> length ys = m) \<and>
       checkLossStreak ts e =
         e\<lparr>engine.warnings := engine.warnings e @
             (if maxLossStreak (thresholds e) \<le> of_nat m
              then [\<lparr> type_w = HIGH_LOSS_STREAK,
                      level = (if 8 \<le> m then CRITICAL else HIGH),
                      value_w = Fin (of_nat m),
                      isBotLikely = None, contractId = None \<rparr>]
              else [])\<rparr>"
    unfolding Let_def
  proof (intro conjI)
    show "\<forall>ys. sublist ys ts \<and> list_all is_loss ys \<longrightarrow> length ys \<le> lossStreakLoop ts 0 0"
      using lossStreakLoop_longest_run [of ts] by (rule conjunct1)
    show "\<exists>ys. sublist ys ts \<and> list_all is_loss ys \<and> length ys = lossStreakLoop ts 0 0"
      using lossStreakLoop_longest_run [of ts] by (rule conjunct2)
    show "checkLossStreak ts e =
         e\<lparr>engine.warnings := engine.warnings e @
             (if maxLossStreak (thresholds e) \<le> of_nat (lossStreakLoop ts 0 0)
              then [\<lparr> type_w = HIGH_LOSS_STREAK,
                      level = (if 8 \<le> lossStreakLoop ts 0 0 then CRITICAL else HIGH),
                      value_w = Fin (of_nat (lossStreakLoop ts 0 0)),
                      isBotLikely = None, contractId = None \<rparr>]
              else [])\<rparr>"
      by (simp add: checkLossStreak_def Let_def push_append)
  qed
next
  show "list_all is_loss ts \<and> length ts = 5 \<and> maxLossStreak (thresholds e) = 5 \<longrightarrow>
      engine.warnings (checkLossStreak ts e) =
        engine.warnings e @
          [\<lparr> type_w = HIGH_LOSS_STREAK, level = HIGH, value_w = Fin 5,
              isBotLikely = None, contractId = None \<rparr>]"
    by (simp add: checkLossStreak_def Let_def push_append lossStreakLoop_all_losses)
next
  show "list_all is_loss ts \<and> length ts = 8 \<and> maxLossStreak (thresholds e) \<le> 8 \<longrightarrow>
      engine.warnings (checkLossStreak ts e) =
        engine.warnings e @
          [\<lparr> type_w = HIGH_LOSS_STREAK, level = CRITICAL, value_w = Fin 8,
              isBotLikely = None, contractId = None \<rparr>]"
    by (simp add: checkLossStreak_def Let_def push_append lossStreakLoop_all_losses)
qed

lemma streakTrades_run: "sublist (replicate 5 (losing 0)) streakTrades"
  by code_simp

lemma losing_is_loss: "list_all is_loss (replicate n (losing t))"
  by (simp add: list_all_iff is_loss_def losing_def)

lemma streakTrades_loop: "lossStreakLoop streakTrades 0 0 = 5"
  by code_simp

text \<open>
  Two losses, a tie, five losses, a win: the run of five is in the list, the maximum
  is 5 and the warning is HIGH; then the lists of five and of eight losses.
\<close>

theorem checkLossStreak_spec_witness:
  "sublist (replicate 5 (losing 0)) streakTrades \<and>
   list_all is_loss (replicate 5 (losing 0)) \<and>
   length (replicate 5 (losing 0)) \<le> lossStreakLoop streakTrades 0 0 \<and>
   lossStreakLoop streakTrades 0 0 = 5 \<and>
   checkLossStreak streakTrades riskEngine =
     riskEngine\<lparr>engine.warnings :=
       [\<lparr> type_w = HIGH_LOSS_STREAK, level = HIGH, value_w = Fin 5,
           isBotLikely = None, contractId = None \<rparr>]\<rparr> \<and>
   length (replicate 5 (losing 0)) = 5 \<and> maxLossStreak (thresholds riskEngine) = 5 \<and>
   engine.warnings (checkLossStreak (replicate 5 (losing 0)) riskEngine) =
     [\<lparr> type_w = HIGH_LOSS_STREAK, level = HIGH, value_w = Fin 5,
         isBotLikely = None, contractId = None \<rparr>] \<and>
   list_all is_loss (replicate 8 (losing 0)) \<and>
   length (replicate 8 (losing 0)) = 8 \<and> maxLossStreak (thresholds riskEngine) \<le> 8 \<and>
   engine.warnings (checkLossStreak (replicate 8 (losing 0)) riskEngine) =
     [\<lparr> type_w = HIGH_LOSS_STREAK, level = CRITICAL, value_w = Fin 8,
         isBotLikely = None, contractId = None \<rparr>]"
proof -
  have th: "maxLossStreak (thresholds riskEngine) = 5"
    by (simp add: riskEngine_def defaultThresholds_def)
  have run: "sublist (replicate 5 (losing 0)) streakTrades"
    by (rule streakTrades_run)
  have l5: "list_all is_loss (replicate 5 (losing 0))"
    and l8: "list_all is_loss (replicate 8 (losing 0))"
    by (rule losing_is_loss)+
  note general = checkLossStreak_spec [of streakTrades riskEngine, unfolded Let_def, THEN conjunct1]
  from general have "\<forall>ys. sublist ys streakTrades \<and> list_all is_loss ys \<longrightarrow>
      length ys \<le> lossStreakLoop streakTrades 0 0"
    by (rule conjunct1)
  with run l5 have bound: "length (replicate 5 (losing 0)) \<le> lossStreakLoop streakTrades 0 0"
    by blast
  from general have emitted: "checkLossStreak streakTrades riskEngine =
     riskEngine\<lparr>engine.warnings :=
       [\<lparr> type_w = HIGH_LOSS_STREAK, level = HIGH, value_w = Fin 5,
           isBotLikely = None, contractId = None \<rparr>]\<rparr>"
    by (simp add: streakTrades_loop th riskEngine_warnings)
  have five: "engine.warnings (checkLossStreak (replicate 5 (losing 0)) riskEngine) =
     [\<lparr> type_w = HIGH_LOSS_STREAK, level = HIGH, value_w = Fin 5,
         isBotLikely = None, contractId = None \<rparr>]"
    using checkLossStreak_spec [of "replicate 5 (losing 0)" riskEngine, THEN conjunct2,
            THEN conjunct1] l5 th
    by (simp add: riskEngine_warnings)
  have eight: "engine.warnings (checkLossStreak (replicate 8 (losing 0)) riskEngine) =
     [\<lparr> type_w = HIGH_LOSS_STREAK, level = CRITICAL, value_w = Fin 8,
         isBotLikely = None, contractId = None \<rparr>]"
    using checkLossStreak_spec [of "replicate 8 (losing 0)" riskEngine, THEN conjunct2,
            THEN conjunct2] l8 th
    by (simp add: riskEngine_warnings)
  show ?thesis
    using run l5 l8 bound emitted five eight th
    by (simp add: streakTrades_loop)
qed

section \<open>Detectors over the time-sorted copy\<close>

lemma forAdjacent_count:
  "forAdjacent cond xs n i cnt =
     cnt + length (filter (\<lambda>j. cond (xs ! (j - 1)) (xs ! j)) [i..<n])"
proof (induction cond xs n i cnt rule: forAdjacent.induct)
  case (1 cond xs n i cnt)
  show ?case
  proof (cases "i < n")
    case True
    then have "[i..<n] = i # [i + 1..<n]"
      by (simp add: upt_conv_Cons)
    with True "1.IH" show ?thesis
      by (subst forAdjacent.simps) simp
  next
    case False
    then show ?thesis
      by (subst forAdjacent.simps) simp
  qed
qed

lemma adjacent_pairs_take:
  assumes "n \<le> length xs"
  shows "adjacent_pairs (take n xs) = map (\<lambda>j. (xs ! (j - 1), xs ! j)) [1..<n]"
proof (rule nth_equalityI)
  show "length (adjacent_pairs (take n xs)) = length (map (\<lambda>j. (xs ! (j - 1), xs ! j)) [1..<n])"
    using assms by (simp add: adjacent_pairs_def)
next
  fix k
  assume "k < length (adjacent_pairs (take n xs))"
  with assms have k: "k < n - 1"
    by (simp add: adjacent_pairs_def)
  then have "adjacent_pairs (take n xs) ! k = (xs ! k, xs ! Suc k)"
    using assms by (simp add: adjacent_pairs_def nth_tl)
  moreover have "map (\<lambda>j. (xs ! (j - 1), xs ! j)) [1..<n] ! k = (xs ! k, xs ! Suc k)"
    using k by simp
  ultimately show "adjacent_pairs (take n xs) ! k = map (\<lambda>j. (xs ! (j - 1), xs ! j)) [1..<n] ! k"
    by simp
qed

lemma forAdjacent_pairs:
  assumes "n \<le> length xs"
  shows "forAdjacent cond xs n 1 0 =
         length (filter (\<lambda>(a, b). cond a b) (adjacent_pairs (take n xs)))"
proof -
  have "length (filter (\<lambda>(a, b). cond a b) (adjacent_pairs (take n xs))) =
        length (filter ((\<lambda>(a, b). cond a b) \<circ> (\<lambda>j. (xs ! (j - 1), xs ! j))) [1..<n])"
    unfolding adjacent_pairs_take [OF assms] by (rule length_filter_map)
  also have "\<dots> = length (filter (\<lambda>j. cond (xs ! (j - 1)) (xs ! j)) [1..<n])"
    by (simp add: comp_def)
  finally show ?thesis
    by (simp add: forAdjacent_count)
qed

lemma sortByTime_sorted: "sorted (map purchase_time (sortByTime ts))"
  by (simp add: sortByTime_def)

lemma sortByTime_mset: "mset (sortByTime ts) = mset ts"
  by (simp add: sortByTime_def)

lemma sortByTime_stable:
  "filter (\<lambda>t. purchase_time t = k) (sortByTime ts) = filter (\<lambda>t. purchase_time t = k) ts"
  by (simp add: sortByTime_def sort_key_stable)






lemma default_multiplier:
  "double_of (18 / 10) = Fin (martingaleMultiplier (thresholds riskEngine))"
  by code_simp


text \<open>
  Claim C9. The bot-activity detector works on the trades sorted ascending by purchase
  time and looks at the first \<open>min 20 n\<close> of them only. It counts the adjacent pairs
  among these whose purchase times are at most \<open>botTradeInterval\<close> seconds apart, and
  appends exactly one MEDIUM warning with \<open>isBotLikely\<close> true and the count as value
  when the count is at least 5, nothing otherwise.
\<close>

theorem checkBotActivity_spec:
  "(let s = sortByTime ts;
        examined = take (min 20 (length ts)) s;
        n = length (filter (\<lambda>(earlier, later).
                       close_gap (botTradeInterval (thresholds e)) earlier later)
                     (adjacent_pairs examined))
    in sorted (map purchase_time s) \<and> mset s = mset ts \<and>
       (\<forall>k. filter (\<lambda>t. purchase_time t = k) s = filter (\<lambda>t. purchase_time t = k) ts) \<and>
       checkBotActivity ts e =
         e\<lparr>engine.warnings := engine.warnings e @
             (if 5 \<le> n
              then [\<lparr> type_w = BOT_ACTIVITY, level = MEDIUM, value_w = Fin (of_nat n),
                      isBotLikely = Some True, contractId = None \<rparr>]
              else [])\<rparr>)"
proof -
  have len: "length (sortByTime ts) = length ts"
    by (simp add: sortByTime_def)
  have "forAdjacent
          (\<lambda>prev curr. of_int (purchase_time curr - purchase_time prev)
                          \<le> botTradeInterval (thresholds e))
          (sortByTime ts) (min (length (sortByTime ts)) 20) 1 0 =
        length (filter (\<lambda>(earlier, later).
                   close_gap (botTradeInterval (thresholds e)) earlier later)
                 (adjacent_pairs (take (min 20 (length ts)) (sortByTime ts))))"
    using forAdjacent_pairs [of "min (length (sortByTime ts)) 20" "sortByTime ts"
            "\<lambda>prev curr. of_int (purchase_time curr - purchase_time prev)
                            \<le> botTradeInterval (thresholds e)"]
    by (simp add: close_gap_def len min.commute)
  then show ?thesis
    by (simp add: checkBotActivity_def Let_def push_append sortByTime_sorted
          sortByTime_mset sortByTime_stable)
qed

lemma earlyQuickTrades_examined:
  "take 20 (sortByTime earlyQuickTrades) =
     quickTrades 0 @ slowTrades 1000 14"
  by code_simp

lemma earlyQuickTrades_count:
  "length (filter (\<lambda>(earlier, later).
              close_gap (botTradeInterval (thresholds riskEngine)) earlier later)
            (adjacent_pairs (quickTrades 0 @ slowTrades 1000 14))) = 5"
  by code_simp

lemma lateQuickTrades_examined:
  "take 20 (sortByTime lateQuickTrades) = slowTrades 0 20"
  by code_simp

lemma lateQuickTrades_count:
  "length (filter (\<lambda>(earlier, later).
              close_gap (botTradeInterval (thresholds riskEngine)) earlier later)
            (adjacent_pairs (slowTrades 0 20))) = 0"
  by code_simp

text \<open>
  The six quick trades count when they are the earliest in time although listed last
  (five gaps, one warning), and do not when they are the latest in time although
  listed first, beyond the first twenty.
\<close>

theorem checkBotActivity_spec_witness:
  "length earlyQuickTrades = 25 \<and>
   take (min 20 (length earlyQuickTrades)) (sortByTime earlyQuickTrades) =
     quickTrades 0 @ slowTrades 1000 14 \<and>
   checkBotActivity earlyQuickTrades riskEngine =
     riskEngine\<lparr>engine.warnings :=
       [\<lparr> type_w = BOT_ACTIVITY, level = MEDIUM, value_w = Fin 5,
           isBotLikely = Some True, contractId = None \<rparr>]\<rparr> \<and>
   length lateQuickTrades = 26 \<and>
   take (min 20 (length lateQuickTrades)) (sortByTime lateQuickTrades) = slowTrades 0 20 \<and>
   checkBotActivity lateQuickTrades riskEngine = riskEngine\<lparr>engine.warnings := []\<rparr>"
proof -
  have "length earlyQuickTrades = 25" "length lateQuickTrades = 26"
    by (simp_all add: earlyQuickTrades_def lateQuickTrades_def slowTrades_def quickTrades_def)
  then show ?thesis
    using checkBotActivity_spec [of earlyQuickTrades riskEngine]
      checkBotActivity_spec [of lateQuickTrades riskEngine]
    by (simp add: Let_def earlyQuickTrades_examined earlyQuickTrades_count
        lateQuickTrades_examined lateQuickTrades_count riskEngine_warnings)
qed

end
